theory Spec2Isabelle
  imports Main "HOL-Library.Word"
begin

section \<open>Verification of attestations: server/verify.go\<close>

text \<open>
  A shallow embedding of \<^verbatim>\<open>server/verify.go\<close>: the hash-algorithm policy
  (\<^verbatim>\<open>supportedHashAlgs\<close>, \<^verbatim>\<open>checkHashAlgSupported\<close>), the trust check
  (\<^verbatim>\<open>pubKeysEqual\<close>, \<^verbatim>\<open>checkAkTrusted\<close>), the quote selector
  (\<^verbatim>\<open>supportedQuotes\<close>) and the top-level procedure \<^verbatim>\<open>VerifyAttestation\<close>.

  Go returns \<^verbatim>\<open>(value, error)\<close> pairs; they stay pairs here, with \<open>None\<close> for a
  nil pointer and for a nil error, so that what is returned next to an error is
  visible. The functions that the file calls and does not define
  (\<^verbatim>\<open>tpm2.DecodePublic\<close>, \<^verbatim>\<open>Public.Key\<close>, \<^verbatim>\<open>internal.GetSigningHashAlg\<close>,
  \<^verbatim>\<open>internal.VerifyQuote\<close>, \<^verbatim>\<open>ParseAndReplayEventLog\<close>) are parameters of
  the model.
\<close>

subsection \<open>Data\<close>

type_synonym byte = "8 word"

text \<open>\<^verbatim>\<open>tpm2.Algorithm\<close> is a \<^verbatim>\<open>uint16\<close>.\<close>

type_synonym Algorithm = "16 word"

text \<open>
  The identifiers of the TPM 2.0 algorithm registry that the file uses, as the
  \<^verbatim>\<open>tpm2\<close> package declares them.
\<close>

definition AlgSHA1 :: Algorithm where
  "AlgSHA1 = 0x0004"

definition AlgSHA256 :: Algorithm where
  "AlgSHA256 = 0x000B"

definition AlgSHA384 :: Algorithm where
  "AlgSHA384 = 0x000C"

definition AlgSHA512 :: Algorithm where
  "AlgSHA512 = 0x000D"

text \<open>
  A Go \<^verbatim>\<open>error\<close> value. \<open>Errorf\<close> is \<^verbatim>\<open>fmt.Errorf\<close> with a constant message,
  \<open>ErrorfV\<close> with a message and an algorithm printed by \<^verbatim>\<open>%v\<close>, \<open>ErrorfW\<close> with
  a message that wraps another error by \<^verbatim>\<open>%w\<close>. \<open>ExternalError\<close> stands for the
  errors that the functions defined outside the file create.
\<close>

datatype error =
    ExternalError nat
  | Errorf string
  | ErrorfV string Algorithm
  | ErrorfW string error

text \<open>
  \<^verbatim>\<open>crypto.PublicKey\<close> is the empty interface. The type switch of
  \<^verbatim>\<open>pubKeysEqual\<close> tells \<^verbatim>\<open>*rsa.PublicKey\<close> and \<^verbatim>\<open>*ecdsa.PublicKey\<close> from
  every other dynamic type (the nil interface among them), which \<open>OtherKey\<close> stands for.
  A curve is a singleton of the standard library, named here by a number. The
  components \<^verbatim>\<open>N\<close>, \<^verbatim>\<open>X\<close> and \<^verbatim>\<open>Y\<close> are \<^verbatim>\<open>*big.Int\<close>, of either sign. A value
  of the type is a key whose pointer and whose \<^verbatim>\<open>*big.Int\<close> components are not nil:
  \<^verbatim>\<open>Equal\<close> dereferences them.
\<close>

datatype PublicKey =
    is_RSAPublicKey: RSAPublicKey (N: int) (E: int)
  | is_ECDSAPublicKey: ECDSAPublicKey (Curve: nat) (X: int) (Y: int)
  | OtherKey nat

text \<open>
  The protobuf messages \<^verbatim>\<open>tpmpb.PCRs\<close>, \<^verbatim>\<open>tpmpb.Quote\<close> and
  \<^verbatim>\<open>pb.Attestation\<close>. The enum \<^verbatim>\<open>tpmpb.HashAlgo\<close> is an \<^verbatim>\<open>int32\<close>. A pointer
  to a message is an option: \<open>None\<close> is nil.
\<close>

record PCRs =
  Hash :: "32 word"
  Pcrs :: "(32 word \<times> byte list) list"

record Quote =
  QuoteBytes :: "byte list"
  RawSig :: "byte list"
  QuotePcrs :: "PCRs option"

record Attestation =
  AkPub :: "byte list"
  Quotes :: "Quote option list"
  EventLog :: "byte list"

record VerifyOpts =
  Nonce :: "byte list"
  TrustedAKs :: "PublicKey list"

text \<open>The generated getters accept a nil receiver and then return the zero value.\<close>

definition GetHash :: "PCRs option \<Rightarrow> 32 word" where
  "GetHash p = (case p of None \<Rightarrow> 0 | Some x \<Rightarrow> Hash x)"

definition GetPcrs :: "Quote option \<Rightarrow> PCRs option" where
  "GetPcrs q = (case q of None \<Rightarrow> None | Some x \<Rightarrow> QuotePcrs x)"

definition GetAkPub :: "Attestation option \<Rightarrow> byte list" where
  "GetAkPub a = (case a of None \<Rightarrow> [] | Some x \<Rightarrow> AkPub x)"

definition GetQuotes :: "Attestation option \<Rightarrow> Quote option list" where
  "GetQuotes a = (case a of None \<Rightarrow> [] | Some x \<Rightarrow> Quotes x)"

definition GetEventLog :: "Attestation option \<Rightarrow> byte list" where
  "GetEventLog a = (case a of None \<Rightarrow> [] | Some x \<Rightarrow> EventLog x)"

text \<open>
  The conversion \<^verbatim>\<open>tpm2.Algorithm(h)\<close> of an \<^verbatim>\<open>int32\<close> to a \<^verbatim>\<open>uint16\<close> keeps
  the low 16 bits.
\<close>

definition toAlgorithm :: "32 word \<Rightarrow> Algorithm" where
  "toAlgorithm h = ucast h"

text \<open>
  \<^verbatim>\<open>tpm2.Algorithm(quote.GetPcrs().GetHash())\<close>: the algorithm of a quote's PCR
  bank, as lines 81 and 135 read it.
\<close>

definition quoteAlg :: "Quote option \<Rightarrow> Algorithm" where
  "quoteAlg q = toAlgorithm (GetHash (GetPcrs q))"

subsection \<open>The hash-algorithm policy\<close>

definition supportedHashAlgs :: "Algorithm list" where
  "supportedHashAlgs = [AlgSHA512, AlgSHA384, AlgSHA256]"

text \<open>The loop of \<^verbatim>\<open>checkHashAlgSupported\<close> over the policy list.\<close>

fun checkHashAlgLoop :: "Algorithm \<Rightarrow> Algorithm list \<Rightarrow> error option" where
  "checkHashAlgLoop hash [] = Some (ErrorfV ''unsupported hash algorithm: %v'' hash)"
| "checkHashAlgLoop hash (alg # algs) =
     (if hash = alg then None else checkHashAlgLoop hash algs)"

definition checkHashAlgSupported :: "Algorithm \<Rightarrow> VerifyOpts \<Rightarrow> error option" where
  "checkHashAlgSupported hash opts = checkHashAlgLoop hash supportedHashAlgs"

subsection \<open>The quote selector\<close>

text \<open>
  The inner loop of \<^verbatim>\<open>supportedQuotes\<close>: the first quote of the algorithm is
  appended to \<open>out\<close>, and the loop is left.
\<close>

fun appendFirstQuote :: "Algorithm \<Rightarrow> Quote option list \<Rightarrow> Quote option list \<Rightarrow> Quote option list" where
  "appendFirstQuote alg [] out = out"
| "appendFirstQuote alg (quote # quotes) out =
     (if quoteAlg quote = alg then out @ [quote] else appendFirstQuote alg quotes out)"

text \<open>The outer loop, over the algorithms in their order of preference.\<close>

fun supportedQuotesLoop :: "Algorithm list \<Rightarrow> Quote option list \<Rightarrow> Quote option list \<Rightarrow> Quote option list" where
  "supportedQuotesLoop [] quotes out = out"
| "supportedQuotesLoop (alg # algs) quotes out =
     supportedQuotesLoop algs quotes (appendFirstQuote alg quotes out)"

definition supportedQuotes :: "Quote option list \<Rightarrow> Quote option list" where
  "supportedQuotes quotes = supportedQuotesLoop supportedHashAlgs quotes []"

subsection \<open>The trust check\<close>

text \<open>
  \<^verbatim>\<open>bigIntEqual\<close> of the standard library, by which both \<^verbatim>\<open>Equal\<close> methods
  compare \<^verbatim>\<open>*big.Int\<close> components: it compares \<^verbatim>\<open>a.Bytes()\<close> with
  \<^verbatim>\<open>b.Bytes()\<close>, the big-endian bytes of the absolute values, so the signs play no
  part.
\<close>

definition bigIntEqual :: "int \<Rightarrow> int \<Rightarrow> bool" where
  "bigIntEqual a b = (\<bar>a\<bar> = \<bar>b\<bar>)"

text \<open>
  \<^verbatim>\<open>(*rsa.PublicKey).Equal\<close> and \<^verbatim>\<open>(*ecdsa.PublicKey).Equal\<close> of the standard
  library: false for a key of another type; otherwise \<^verbatim>\<open>bigIntEqual\<close> on the
  modulus and \<^verbatim>\<open>==\<close> on the exponent, and \<^verbatim>\<open>bigIntEqual\<close> on both coordinates
  and \<^verbatim>\<open>==\<close> on the curve.
\<close>

definition rsaEqual :: "int \<Rightarrow> int \<Rightarrow> PublicKey \<Rightarrow> bool" where
  "rsaEqual n e k2 =
     (case k2 of RSAPublicKey n' e' \<Rightarrow> bigIntEqual n n' \<and> e = e' | _ \<Rightarrow> False)"

definition ecdsaEqual :: "nat \<Rightarrow> int \<Rightarrow> int \<Rightarrow> PublicKey \<Rightarrow> bool" where
  "ecdsaEqual c x y k2 =
     (case k2 of
        ECDSAPublicKey c' x' y' \<Rightarrow> bigIntEqual x x' \<and> bigIntEqual y y' \<and> c = c'
      | _ \<Rightarrow> False)"

definition pubKeysEqual :: "PublicKey \<Rightarrow> PublicKey \<Rightarrow> bool" where
  "pubKeysEqual k1 k2 =
     (case k1 of
        RSAPublicKey n e \<Rightarrow> rsaEqual n e k2
      | ECDSAPublicKey c x y \<Rightarrow> ecdsaEqual c x y k2
      | OtherKey t \<Rightarrow> False)"

text \<open>The loop of \<^verbatim>\<open>checkAkTrusted\<close> over the trusted keys.\<close>

fun checkAkLoop :: "PublicKey \<Rightarrow> PublicKey list \<Rightarrow> error option" where
  "checkAkLoop ak [] = Some (Errorf ''AK public key is not trusted'')"
| "checkAkLoop ak (trusted # rest) =
     (if pubKeysEqual ak trusted then None else checkAkLoop ak rest)"

definition checkAkTrusted :: "PublicKey \<Rightarrow> VerifyOpts \<Rightarrow> error option" where
  "checkAkTrusted ak opts =
     (if length (TrustedAKs opts) = 0
      then Some (Errorf ''no mechanism for AK verification provided'')
      else checkAkLoop ak (TrustedAKs opts))"

subsection \<open>The functions defined outside the file\<close>

text \<open>
  \<open>'p\<close> is \<^verbatim>\<open>tpm2.Public\<close>, the decoded public area; \<open>'s\<close> is
  \<^verbatim>\<open>pb.MachineState\<close>. Each function returns what its Go signature returns.
\<close>

record ('p, 's) collaborators =
  DecodePublic :: "byte list \<Rightarrow> 'p \<times> error option"
  Key :: "'p \<Rightarrow> PublicKey \<times> error option"
  GetSigningHashAlg :: "'p \<Rightarrow> Algorithm \<times> error option"
  VerifyQuote :: "Quote option \<Rightarrow> PublicKey \<Rightarrow> byte list \<Rightarrow> error option"
  ParseAndReplayEventLog :: "byte list \<Rightarrow> PCRs option \<Rightarrow> 's option \<times> error option"

subsection \<open>VerifyAttestation\<close>

text \<open>
  The loop of lines 65 to 87 over the candidates, with \<^verbatim>\<open>lastErr\<close>, and the
  returns of lines 89 to 92 after it.
\<close>

fun verifyQuotes ::
  "('p, 's) collaborators \<Rightarrow> Attestation option \<Rightarrow> VerifyOpts \<Rightarrow> PublicKey \<Rightarrow>
   Quote option list \<Rightarrow> error option \<Rightarrow> 's option \<times> error option" where
  "verifyQuotes ext attestation opts akPubKey [] lastErr =
     (case lastErr of
        Some e \<Rightarrow> (None, Some e)
      | None \<Rightarrow> (None, Some (Errorf ''attestation does not contain a supported quote'')))"
| "verifyQuotes ext attestation opts akPubKey (quote # quotes) lastErr =
     (case VerifyQuote ext quote akPubKey (Nonce opts) of
        Some err \<Rightarrow>
          verifyQuotes ext attestation opts akPubKey quotes
            (Some (ErrorfW ''failed to verify quote: %w'' err))
      | None \<Rightarrow>
          (let pcrs = GetPcrs quote in
           case ParseAndReplayEventLog ext (GetEventLog attestation) pcrs of
             (state, Some err) \<Rightarrow>
               verifyQuotes ext attestation opts akPubKey quotes
                 (Some (ErrorfW ''failed to validate the event log: %w'' err))
           | (state, None) \<Rightarrow>
               (let pcrHashAlg = toAlgorithm (GetHash pcrs) in
                case checkHashAlgSupported pcrHashAlg opts of
                  Some err \<Rightarrow> (None, Some (ErrorfW ''when verifying PCRs: %w'' err))
                | None \<Rightarrow> (state, None))))"

definition VerifyAttestation ::
  "('p, 's) collaborators \<Rightarrow> Attestation option \<Rightarrow> VerifyOpts \<Rightarrow> 's option \<times> error option" where
  "VerifyAttestation ext attestation opts =
     (case DecodePublic ext (GetAkPub attestation) of
        (akPubArea, Some err) \<Rightarrow> (None, Some (ErrorfW ''failed to decode AK public area: %w'' err))
      | (akPubArea, None) \<Rightarrow>
          (case Key ext akPubArea of
             (akPubKey, Some err) \<Rightarrow> (None, Some (ErrorfW ''failed to get AK public key: %w'' err))
           | (akPubKey, None) \<Rightarrow>
               (case checkAkTrusted akPubKey opts of
                  Some err \<Rightarrow> (None, Some err)
                | None \<Rightarrow>
                    (case GetSigningHashAlg ext akPubArea of
                       (signHashAlg, Some err) \<Rightarrow> (None, Some (ErrorfW ''bad AK public area: %w'' err))
                     | (signHashAlg, None) \<Rightarrow>
                         (case checkHashAlgSupported signHashAlg opts of
                            Some err \<Rightarrow> (None, Some (ErrorfW ''in AK public area: %w'' err))
                          | None \<Rightarrow>
                              verifyQuotes ext attestation opts akPubKey
                                (supportedQuotes (GetQuotes attestation)) None)))))"

text \<open>
  The same procedure, returning next to its result the quotes that were handed to
  \<^verbatim>\<open>internal.VerifyQuote\<close>, in the order of the calls: the quotes that were
  examined. \<open>examined\<close> holds the calls made so far.
\<close>

fun verifyQuotesExamined ::
  "('p, 's) collaborators \<Rightarrow> Attestation option \<Rightarrow> VerifyOpts \<Rightarrow> PublicKey \<Rightarrow>
   Quote option list \<Rightarrow> error option \<Rightarrow> Quote option list \<Rightarrow>
   ('s option \<times> error option) \<times> Quote option list" where
  "verifyQuotesExamined ext attestation opts akPubKey [] lastErr examined =
     (case lastErr of
        Some e \<Rightarrow> ((None, Some e), examined)
      | None \<Rightarrow>
          ((None, Some (Errorf ''attestation does not contain a supported quote'')), examined))"
| "verifyQuotesExamined ext attestation opts akPubKey (quote # quotes) lastErr examined =
     (case VerifyQuote ext quote akPubKey (Nonce opts) of
        Some err \<Rightarrow>
          verifyQuotesExamined ext attestation opts akPubKey quotes
            (Some (ErrorfW ''failed to verify quote: %w'' err)) (examined @ [quote])
      | None \<Rightarrow>
          (let pcrs = GetPcrs quote in
           case ParseAndReplayEventLog ext (GetEventLog attestation) pcrs of
             (state, Some err) \<Rightarrow>
               verifyQuotesExamined ext attestation opts akPubKey quotes
                 (Some (ErrorfW ''failed to validate the event log: %w'' err)) (examined @ [quote])
           | (state, None) \<Rightarrow>
               (let pcrHashAlg = toAlgorithm (GetHash pcrs) in
                case checkHashAlgSupported pcrHashAlg opts of
                  Some err \<Rightarrow>
                    ((None, Some (ErrorfW ''when verifying PCRs: %w'' err)), examined @ [quote])
                | None \<Rightarrow> ((state, None), examined @ [quote]))))"

definition VerifyAttestationExamined ::
  "('p, 's) collaborators \<Rightarrow> Attestation option \<Rightarrow> VerifyOpts \<Rightarrow>
   ('s option \<times> error option) \<times> Quote option list" where
  "VerifyAttestationExamined ext attestation opts =
     (case DecodePublic ext (GetAkPub attestation) of
        (akPubArea, Some err) \<Rightarrow>
          ((None, Some (ErrorfW ''failed to decode AK public area: %w'' err)), [])
      | (akPubArea, None) \<Rightarrow>
          (case Key ext akPubArea of
             (akPubKey, Some err) \<Rightarrow>
               ((None, Some (ErrorfW ''failed to get AK public key: %w'' err)), [])
           | (akPubKey, None) \<Rightarrow>
               (case checkAkTrusted akPubKey opts of
                  Some err \<Rightarrow> ((None, Some err), [])
                | None \<Rightarrow>
                    (case GetSigningHashAlg ext akPubArea of
                       (signHashAlg, Some err) \<Rightarrow>
                         ((None, Some (ErrorfW ''bad AK public area: %w'' err)), [])
                     | (signHashAlg, None) \<Rightarrow>
                         (case checkHashAlgSupported signHashAlg opts of
                            Some err \<Rightarrow> ((None, Some (ErrorfW ''in AK public area: %w'' err)), [])
                          | None \<Rightarrow>
                              verifyQuotesExamined ext attestation opts akPubKey
                                (supportedQuotes (GetQuotes attestation)) None [])))))"

definition examinedQuotes ::
  "('p, 's) collaborators \<Rightarrow> Attestation option \<Rightarrow> VerifyOpts \<Rightarrow> Quote option list" where
  "examinedQuotes ext attestation opts = snd (VerifyAttestationExamined ext attestation opts)"

subsection \<open>Notions used in the statements\<close>

text \<open>The first quote of the list with the given algorithm, if there is one.\<close>

definition firstQuoteWith :: "Algorithm \<Rightarrow> Quote option list \<Rightarrow> Quote option list" where
  "firstQuoteWith alg quotes =
     (case find (\<lambda>q. quoteAlg q = alg) quotes of None \<Rightarrow> [] | Some q \<Rightarrow> [q])"

text \<open>
  The error that the loop records in \<^verbatim>\<open>lastErr\<close> for a candidate (lines 67 to 78):
  that of the quote verifier, else that of the log replay; \<open>None\<close> when the candidate
  passes both.
\<close>

definition softError ::
  "('p, 's) collaborators \<Rightarrow> Attestation option \<Rightarrow> VerifyOpts \<Rightarrow> PublicKey \<Rightarrow>
   Quote option \<Rightarrow> error option" where
  "softError ext attestation opts akPubKey quote =
     (case VerifyQuote ext quote akPubKey (Nonce opts) of
        Some err \<Rightarrow> Some (ErrorfW ''failed to verify quote: %w'' err)
      | None \<Rightarrow>
          (case ParseAndReplayEventLog ext (GetEventLog attestation) (GetPcrs quote) of
             (state, Some err) \<Rightarrow> Some (ErrorfW ''failed to validate the event log: %w'' err)
           | (state, None) \<Rightarrow> None))"

text \<open>The machine state that the log replay returns for a quote's PCR bank.\<close>

definition replayedState ::
  "('p, 's) collaborators \<Rightarrow> Attestation option \<Rightarrow> Quote option \<Rightarrow> 's option" where
  "replayedState ext attestation quote =
     fst (ParseAndReplayEventLog ext (GetEventLog attestation) (GetPcrs quote))"

text \<open>
  The checks of lines 41 to 61 all pass, with \<open>akPubKey\<close> the key of the decoded
  public area.
\<close>

definition akAccepted ::
  "('p, 's) collaborators \<Rightarrow> Attestation option \<Rightarrow> VerifyOpts \<Rightarrow> PublicKey \<Rightarrow> bool" where
  "akAccepted ext attestation opts akPubKey =
     (case DecodePublic ext (GetAkPub attestation) of
        (akPubArea, Some err) \<Rightarrow> False
      | (akPubArea, None) \<Rightarrow>
          (case Key ext akPubArea of
             (k, Some err) \<Rightarrow> False
           | (k, None) \<Rightarrow>
               k = akPubKey \<and> checkAkTrusted k opts = None \<and>
               (case GetSigningHashAlg ext akPubArea of
                  (signHashAlg, Some err) \<Rightarrow> False
                | (signHashAlg, None) \<Rightarrow> checkHashAlgSupported signHashAlg opts = None)))"

text \<open>No \<^verbatim>\<open>*big.Int\<close> component of the key is negative.\<close>

definition nonNegativeKey :: "PublicKey \<Rightarrow> bool" where
  "nonNegativeKey k =
     (case k of
        RSAPublicKey n e \<Rightarrow> 0 \<le> n
      | ECDSAPublicKey c x y \<Rightarrow> 0 \<le> x \<and> 0 \<le> y
      | OtherKey t \<Rightarrow> True)"

subsection \<open>Example inputs\<close>

text \<open>Quotes over a SHA-1, a SHA-256, a SHA-384 and a SHA-512 bank.\<close>

definition exQuoteSHA1 :: "Quote option" where
  "exQuoteSHA1 =
     Some \<lparr>QuoteBytes = [1], RawSig = [], QuotePcrs = Some \<lparr>Hash = 0x0004, Pcrs = []\<rparr>\<rparr>"

definition exQuoteSHA256 :: "Quote option" where
  "exQuoteSHA256 =
     Some \<lparr>QuoteBytes = [2], RawSig = [], QuotePcrs = Some \<lparr>Hash = 0x000B, Pcrs = []\<rparr>\<rparr>"

definition exQuoteSHA256b :: "Quote option" where
  "exQuoteSHA256b =
     Some \<lparr>QuoteBytes = [3], RawSig = [], QuotePcrs = Some \<lparr>Hash = 0x000B, Pcrs = []\<rparr>\<rparr>"

definition exQuoteSHA384 :: "Quote option" where
  "exQuoteSHA384 =
     Some \<lparr>QuoteBytes = [4], RawSig = [], QuotePcrs = Some \<lparr>Hash = 0x000C, Pcrs = []\<rparr>\<rparr>"

definition exQuoteSHA512 :: "Quote option" where
  "exQuoteSHA512 =
     Some \<lparr>QuoteBytes = [5], RawSig = [], QuotePcrs = Some \<lparr>Hash = 0x000D, Pcrs = []\<rparr>\<rparr>"

definition exAk :: PublicKey where
  "exAk = RSAPublicKey 3233 17"

definition exOtherAk :: PublicKey where
  "exOtherAk = ECDSAPublicKey 256 5 7"

text \<open>The key \<open>exAk\<close> with the sign of its modulus changed, and with another exponent.\<close>

definition exNegatedAk :: PublicKey where
  "exNegatedAk = RSAPublicKey (- 3233) 17"

definition exAkOtherExponent :: PublicKey where
  "exAkOtherExponent = RSAPublicKey 3233 3"

text \<open>
  Collaborators for the examples. The public area is its encoding and the machine
  state is the hash identifier of the bank it was replayed against. The empty
  encoding does not decode; the area \<open>[1]\<close> signs with SHA-1, every other one with
  SHA-256; the key is always \<open>exAk\<close>. The verifier rejects the quotes over a SHA-512
  bank, and the replay fails against a SHA-384 bank.
\<close>

definition exTools :: "(byte list, 32 word) collaborators" where
  "exTools =
     \<lparr>DecodePublic = (\<lambda>b. if b = [] then ([], Some (ExternalError 0)) else (b, None)),
      Key = (\<lambda>p. (exAk, None)),
      GetSigningHashAlg = (\<lambda>p. (if p = [1] then AlgSHA1 else AlgSHA256, None)),
      VerifyQuote = (\<lambda>q k n. if quoteAlg q = AlgSHA512 then Some (ExternalError 1) else None),
      ParseAndReplayEventLog =
        (\<lambda>log pcrs. if toAlgorithm (GetHash pcrs) = AlgSHA384
           then (None, Some (ExternalError 2)) else (Some (GetHash pcrs), None))\<rparr>"

definition exAttestation :: "byte list \<Rightarrow> Quote option list \<Rightarrow> Attestation option" where
  "exAttestation ak quotes = Some \<lparr>AkPub = ak, Quotes = quotes, EventLog = []\<rparr>"

definition exOpts :: "PublicKey list \<Rightarrow> VerifyOpts" where
  "exOpts trusted = \<lparr>Nonce = [], TrustedAKs = trusted\<rparr>"

section \<open>Properties\<close>

subsection \<open>The hash-algorithm policy\<close>

lemma checkHashAlgLoop_None: "checkHashAlgLoop hash algs = None \<longleftrightarrow> hash \<in> set algs"
  by (induction algs) auto

lemma algs_distinct:
  "AlgSHA512 \<noteq> AlgSHA384" "AlgSHA512 \<noteq> AlgSHA256" "AlgSHA384 \<noteq> AlgSHA256"
  "AlgSHA1 \<noteq> AlgSHA512" "AlgSHA1 \<noteq> AlgSHA384" "AlgSHA1 \<noteq> AlgSHA256"
  by (simp_all add: AlgSHA512_def AlgSHA384_def AlgSHA256_def AlgSHA1_def)

text \<open>
  C9. \<^verbatim>\<open>checkHashAlgSupported\<close> returns a nil error exactly for SHA-512, SHA-384
  and SHA-256, and its result is the same whatever the options are: it is a function
  of the algorithm and the fixed policy list alone.
\<close>

theorem checkHashAlgSupported_policy:
  "(checkHashAlgSupported hash opts = None \<longleftrightarrow> hash = AlgSHA512 \<or> hash = AlgSHA384 \<or> hash = AlgSHA256)
   \<and> checkHashAlgSupported hash opts = checkHashAlgSupported hash opts'
   \<and> checkHashAlgSupported hash opts = checkHashAlgLoop hash [AlgSHA512, AlgSHA384, AlgSHA256]"
  by (auto simp: checkHashAlgSupported_def supportedHashAlgs_def)

subsection \<open>The quote selector\<close>

lemma exQuote_alg:
  "quoteAlg exQuoteSHA1 = AlgSHA1" "quoteAlg exQuoteSHA256 = AlgSHA256"
  "quoteAlg exQuoteSHA256b = AlgSHA256" "quoteAlg exQuoteSHA384 = AlgSHA384"
  "quoteAlg exQuoteSHA512 = AlgSHA512" "quoteAlg None = 0"
  by (simp_all add: quoteAlg_def toAlgorithm_def GetHash_def GetPcrs_def exQuoteSHA1_def
      exQuoteSHA256_def exQuoteSHA256b_def exQuoteSHA384_def exQuoteSHA512_def
      AlgSHA1_def AlgSHA256_def AlgSHA384_def AlgSHA512_def)

lemma appendFirstQuote_first:
  "appendFirstQuote alg quotes out = out @ firstQuoteWith alg quotes"
  by (induction quotes) (auto simp: firstQuoteWith_def)

lemma supportedQuotesLoop_concat:
  "supportedQuotesLoop algs quotes out =
     out @ concat (map (\<lambda>alg. firstQuoteWith alg quotes) algs)"
  by (induction algs arbitrary: out) (auto simp: appendFirstQuote_first)

lemma supportedQuotes_concat:
  "supportedQuotes quotes =
     firstQuoteWith AlgSHA512 quotes @ firstQuoteWith AlgSHA384 quotes @ firstQuoteWith AlgSHA256 quotes"
  by (simp add: supportedQuotes_def supportedQuotesLoop_concat supportedHashAlgs_def
      del: supportedQuotesLoop.simps)

lemma firstQuoteWith_cases:
  "firstQuoteWith alg quotes = [] \<or>
   (\<exists>q. firstQuoteWith alg quotes = [q] \<and> quoteAlg q = alg \<and> q \<in> set quotes)"
proof (cases "find (\<lambda>q. quoteAlg q = alg) quotes")
  case None
  then show ?thesis by (simp add: firstQuoteWith_def)
next
  case (Some q)
  then have "quoteAlg q = alg \<and> q \<in> set quotes"
    by (induction quotes) (auto split: if_splits)
  with Some show ?thesis by (simp add: firstQuoteWith_def)
qed

lemma supportedQuotes_alg:
  assumes "q \<in> set (supportedQuotes quotes)"
  shows "quoteAlg q \<in> set supportedHashAlgs \<and> q \<in> set quotes"
  using assms firstQuoteWith_cases [of AlgSHA512 quotes] firstQuoteWith_cases [of AlgSHA384 quotes]
    firstQuoteWith_cases [of AlgSHA256 quotes]
  by (auto simp: supportedQuotes_concat supportedHashAlgs_def)

lemma supportedQuotes_distinct: "distinct (map quoteAlg (supportedQuotes quotes))"
  using firstQuoteWith_cases [of AlgSHA512 quotes] firstQuoteWith_cases [of AlgSHA384 quotes]
    firstQuoteWith_cases [of AlgSHA256 quotes] algs_distinct
  by (auto simp: supportedQuotes_concat)

lemma distinct_map_filter_le1:
  "distinct (map f xs) \<Longrightarrow> length (filter (\<lambda>x. f x = a) xs) \<le> 1"
  by (induction xs) (auto simp: filter_empty_conv image_iff)

text \<open>
  C3. \<^verbatim>\<open>supportedQuotes\<close> returns, for SHA-512, SHA-384 and SHA-256 in this order,
  the first quote of the input whose PCR bank has that algorithm, and nothing for an
  algorithm that no quote has. Every quote of the output is a quote of the input with
  one of the three algorithms, so a quote with another algorithm is not in the output;
  no algorithm has two quotes in the output; equal inputs give equal outputs.
\<close>

theorem supportedQuotes_selects:
  "supportedQuotes quotes =
     concat (map (\<lambda>alg. case find (\<lambda>q. quoteAlg q = alg) quotes of None \<Rightarrow> [] | Some q \<Rightarrow> [q])
       [AlgSHA512, AlgSHA384, AlgSHA256])
   \<and> (\<forall>q \<in> set (supportedQuotes quotes).
        q \<in> set quotes \<and> (quoteAlg q = AlgSHA512 \<or> quoteAlg q = AlgSHA384 \<or> quoteAlg q = AlgSHA256))
   \<and> (\<forall>alg. length (filter (\<lambda>q. quoteAlg q = alg) (supportedQuotes quotes)) \<le> 1)
   \<and> (quotes' = quotes \<longrightarrow> supportedQuotes quotes' = supportedQuotes quotes)"
proof -
  have c: "supportedQuotes quotes =
     concat (map (\<lambda>alg. case find (\<lambda>q. quoteAlg q = alg) quotes of None \<Rightarrow> [] | Some q \<Rightarrow> [q])
       [AlgSHA512, AlgSHA384, AlgSHA256])"
    by (simp add: supportedQuotes_concat firstQuoteWith_def)
  have a: "\<forall>q \<in> set (supportedQuotes quotes).
        q \<in> set quotes \<and> (quoteAlg q = AlgSHA512 \<or> quoteAlg q = AlgSHA384 \<or> quoteAlg q = AlgSHA256)"
    using supportedQuotes_alg [of _ quotes] by (auto simp: supportedHashAlgs_def)
  have b: "\<forall>alg. length (filter (\<lambda>q. quoteAlg q = alg) (supportedQuotes quotes)) \<le> 1"
    using distinct_map_filter_le1 [OF supportedQuotes_distinct] by blast
  show ?thesis using a b c by blast
qed

lemma exQuotes_selected:
  "supportedQuotes [exQuoteSHA1, exQuoteSHA256, None, exQuoteSHA256b, exQuoteSHA512] =
     [exQuoteSHA512, exQuoteSHA256]"
  using algs_distinct
  by (simp add: supportedQuotes_def supportedHashAlgs_def exQuote_alg
      AlgSHA256_def AlgSHA384_def AlgSHA512_def)

theorem supportedQuotes_selects_witness:
  "supportedQuotes [exQuoteSHA1, exQuoteSHA256, None, exQuoteSHA256b, exQuoteSHA512] =
     [exQuoteSHA512, exQuoteSHA256]
   \<and> exQuoteSHA1 \<notin> set (supportedQuotes [exQuoteSHA1, exQuoteSHA256, None, exQuoteSHA256b, exQuoteSHA512])
   \<and> quoteAlg exQuoteSHA256 = AlgSHA256
   \<and> length (filter (\<lambda>q. quoteAlg q = AlgSHA256)
         (supportedQuotes [exQuoteSHA1, exQuoteSHA256, None, exQuoteSHA256b, exQuoteSHA512])) \<le> 1"
  using supportedQuotes_selects
    [of "[exQuoteSHA1, exQuoteSHA256, None, exQuoteSHA256b, exQuoteSHA512]"
        "[exQuoteSHA1, exQuoteSHA256, None, exQuoteSHA256b, exQuoteSHA512]"]
    exQuotes_selected exQuote_alg algs_distinct
  by auto

subsection \<open>The trust check\<close>

lemma checkAkLoop_None:
  "checkAkLoop ak trusted = None \<longleftrightarrow> (\<exists>t \<in> set trusted. pubKeysEqual ak t)"
  by (induction trusted) auto

lemma checkAkTrusted_None:
  "checkAkTrusted ak opts = None \<longleftrightarrow> (\<exists>t \<in> set (TrustedAKs opts). pubKeysEqual ak t)"
  by (auto simp: checkAkTrusted_def checkAkLoop_None)

lemma pubKeysEqual_iff:
  "pubKeysEqual k t \<longleftrightarrow>
     (is_RSAPublicKey k \<and> is_RSAPublicKey t \<and> \<bar>N k\<bar> = \<bar>N t\<bar> \<and> E k = E t) \<or>
     (is_ECDSAPublicKey k \<and> is_ECDSAPublicKey t \<and> Curve k = Curve t \<and>
      \<bar>X k\<bar> = \<bar>X t\<bar> \<and> \<bar>Y k\<bar> = \<bar>Y t\<bar>)"
  by (cases k; cases t)
    (auto simp: pubKeysEqual_def rsaEqual_def ecdsaEqual_def bigIntEqual_def)

lemma pubKeysEqual_nonNegative:
  "nonNegativeKey k \<Longrightarrow> nonNegativeKey t \<Longrightarrow> pubKeysEqual k t \<Longrightarrow> k = t"
  by (cases k; cases t)
    (auto simp: pubKeysEqual_def rsaEqual_def ecdsaEqual_def bigIntEqual_def nonNegativeKey_def)

text \<open>
  C10. A key that is neither an RSA nor an ECDSA public key is equal to no key, and
  \<^verbatim>\<open>checkAkTrusted\<close> returns an error for it whatever the trusted keys are.
\<close>

theorem pubKeysEqual_other_key:
  assumes "\<not> is_RSAPublicKey k" and "\<not> is_ECDSAPublicKey k"
  shows "pubKeysEqual k k2 = False \<and> checkAkTrusted k opts \<noteq> None"
proof -
  have "\<And>t. pubKeysEqual k t = False"
    using assms by (cases k) (simp_all add: pubKeysEqual_def)
  then show ?thesis by (simp add: checkAkTrusted_None)
qed

theorem pubKeysEqual_other_key_witness:
  "pubKeysEqual (OtherKey 7) (OtherKey 7) = False
   \<and> checkAkTrusted (OtherKey 7) (exOpts [OtherKey 7, exAk]) \<noteq> None
   \<and> checkAkTrusted (OtherKey 7) (exOpts []) \<noteq> None"
  using pubKeysEqual_other_key [of "OtherKey 7" "OtherKey 7" "exOpts [OtherKey 7, exAk]"]
    pubKeysEqual_other_key [of "OtherKey 7" "OtherKey 7" "exOpts []"]
  by simp

subsection \<open>The loop over the candidates\<close>

lemma verifyQuotesExamined_fst:
  "fst (verifyQuotesExamined ext att opts k qs lastErr ex) = verifyQuotes ext att opts k qs lastErr"
  by (induction qs arbitrary: lastErr ex) (auto split: option.splits prod.splits simp: Let_def)

lemma VerifyAttestationExamined_fst:
  "fst (VerifyAttestationExamined ext att opts) = VerifyAttestation ext att opts"
  by (auto simp: VerifyAttestationExamined_def VerifyAttestation_def verifyQuotesExamined_fst
      split: option.splits prod.splits)

lemma akAccepted_loop:
  assumes "akAccepted ext att opts k"
  shows "VerifyAttestation ext att opts =
           verifyQuotes ext att opts k (supportedQuotes (GetQuotes att)) None"
    and "VerifyAttestationExamined ext att opts =
           verifyQuotesExamined ext att opts k (supportedQuotes (GetQuotes att)) None []"
  using assms
  by (auto simp: akAccepted_def VerifyAttestation_def VerifyAttestationExamined_def
      split: option.splits prod.splits)

lemma verifyQuotes_soft:
  assumes "softError ext att opts k q = Some e"
  shows "verifyQuotes ext att opts k (q # qs) lastErr = verifyQuotes ext att opts k qs (Some e)"
    and "verifyQuotesExamined ext att opts k (q # qs) lastErr ex =
           verifyQuotesExamined ext att opts k qs (Some e) (ex @ [q])"
  using assms by (auto simp: softError_def Let_def split: option.splits prod.splits)

lemma verifyQuotes_pass:
  assumes "softError ext att opts k q = None"
  shows "verifyQuotes ext att opts k (q # qs) lastErr =
           (case checkHashAlgSupported (quoteAlg q) opts of
              Some err \<Rightarrow> (None, Some (ErrorfW ''when verifying PCRs: %w'' err))
            | None \<Rightarrow> (replayedState ext att q, None))"
    and "snd (verifyQuotesExamined ext att opts k (q # qs) lastErr ex) = ex @ [q]"
  using assms
  by (auto simp: softError_def replayedState_def quoteAlg_def Let_def split: option.splits prod.splits)

lemma verifyQuotes_soft_prefix:
  assumes "\<forall>c \<in> set pre. softError ext att opts k c \<noteq> None"
  shows "verifyQuotes ext att opts k (pre @ rest) lastErr =
           verifyQuotes ext att opts k rest
             (if pre = [] then lastErr else softError ext att opts k (last pre))"
    and "verifyQuotesExamined ext att opts k (pre @ rest) lastErr ex =
           verifyQuotesExamined ext att opts k rest
             (if pre = [] then lastErr else softError ext att opts k (last pre)) (ex @ pre)"
  using assms
proof (induction pre arbitrary: lastErr ex)
  case Nil
  { case 1 show ?case by simp }
  { case 2 show ?case by simp }
next
  case (Cons c pre)
  { case 1
    from 1 obtain e where e: "softError ext att opts k c = Some e" by auto
    from 1 have "\<forall>c \<in> set pre. softError ext att opts k c \<noteq> None" by simp
    from Cons.IH(1) [OF this] e show ?case
      by (simp add: verifyQuotes_soft(1) [OF e] del: verifyQuotes.simps) }
  { case 2
    from 2 obtain e where e: "softError ext att opts k c = Some e" by auto
    from 2 have "\<forall>c \<in> set pre. softError ext att opts k c \<noteq> None" by simp
    from Cons.IH(2) [OF this] e show ?case
      by (simp add: verifyQuotes_soft(2) [OF e] del: verifyQuotesExamined.simps) }
qed

lemma candidates_supported:
  "q \<in> set (supportedQuotes quotes) \<Longrightarrow> checkHashAlgSupported (quoteAlg q) opts = None"
  by (simp add: checkHashAlgSupported_def checkHashAlgLoop_None supportedQuotes_alg)

lemma examinedQuotes_loop:
  "\<exists>n. snd (verifyQuotesExamined ext att opts k qs lastErr ex) = ex @ take n qs"
proof (induction qs arbitrary: lastErr ex)
  case Nil
  show ?case by (cases lastErr) simp_all
next
  case (Cons q qs)
  show ?case
  proof (cases "softError ext att opts k q")
    case None
    have "snd (verifyQuotesExamined ext att opts k (q # qs) lastErr ex) = ex @ take 1 (q # qs)"
      using verifyQuotes_pass(2) [OF None] by simp
    then show ?thesis by blast
  next
    case (Some e)
    obtain n where "snd (verifyQuotesExamined ext att opts k qs (Some e) (ex @ [q])) =
        (ex @ [q]) @ take n qs"
      using Cons.IH by blast
    then have "snd (verifyQuotesExamined ext att opts k (q # qs) lastErr ex) =
        ex @ take (Suc n) (q # qs)"
      using verifyQuotes_soft(2) [OF Some] by simp
    then show ?thesis by blast
  qed
qed

lemma examinedQuotes_candidates:
  "\<exists>n. examinedQuotes ext att opts = take n (supportedQuotes (GetQuotes att))"
proof (cases "\<exists>k. akAccepted ext att opts k")
  case True
  then obtain k where "akAccepted ext att opts k" by blast
  then show ?thesis
    using examinedQuotes_loop [of ext att opts k "supportedQuotes (GetQuotes att)" None "[]"]
    by (simp add: examinedQuotes_def akAccepted_loop(2))
next
  case False
  then have "examinedQuotes ext att opts = take 0 (supportedQuotes (GetQuotes att))"
    by (auto simp: examinedQuotes_def VerifyAttestationExamined_def akAccepted_def
        split: option.splits prod.splits)
  then show ?thesis by blast
qed

lemma verifyQuotes_no_pcr_error:
  assumes "\<forall>q \<in> set qs. checkHashAlgSupported (quoteAlg q) opts = None"
    and "lastErr \<noteq> Some (ErrorfW ''when verifying PCRs: %w'' e)"
  shows "snd (verifyQuotes ext att opts k qs lastErr) \<noteq> Some (ErrorfW ''when verifying PCRs: %w'' e)"
  using assms
  by (induction qs arbitrary: lastErr)
    (auto split: option.splits prod.splits simp: Let_def quoteAlg_def)

lemma checkAkLoop_error:
  "checkAkLoop k ts = Some err \<Longrightarrow> err = Errorf ''AK public key is not trusted''"
  by (induction ts) (auto split: if_splits)

lemma checkAkTrusted_error:
  "checkAkTrusted k opts = Some err \<Longrightarrow>
     err = Errorf ''no mechanism for AK verification provided'' \<or>
     err = Errorf ''AK public key is not trusted''"
  by (auto simp: checkAkTrusted_def split: if_splits dest: checkAkLoop_error)

lemma VerifyAttestation_rejected:
  assumes "\<not> (\<exists>k. akAccepted ext att opts k)"
  shows "\<exists>e. VerifyAttestation ext att opts = (None, Some e) \<and>
           e \<noteq> Errorf ''attestation does not contain a supported quote'' \<and>
           (\<forall>e'. e \<noteq> ErrorfW ''when verifying PCRs: %w'' e') \<and>
           examinedQuotes ext att opts = []"
  using assms
  by (auto simp: akAccepted_def VerifyAttestation_def examinedQuotes_def VerifyAttestationExamined_def
      split: option.splits prod.splits dest: checkAkTrusted_error)

lemma verifyQuotes_no_quote_error:
  assumes "qs \<noteq> [] \<or> lastErr \<noteq> None"
    and "lastErr \<noteq> Some (Errorf ''attestation does not contain a supported quote'')"
  shows "snd (verifyQuotes ext att opts k qs lastErr) \<noteq>
           Some (Errorf ''attestation does not contain a supported quote'')"
  using assms
  by (induction qs arbitrary: lastErr)
    (auto split: option.splits prod.splits simp: Let_def)

lemma verifyQuotes_all_soft:
  assumes "qs \<noteq> []" and "\<forall>c \<in> set qs. softError ext att opts k c \<noteq> None"
  shows "verifyQuotes ext att opts k qs lastErr = (None, softError ext att opts k (last qs))"
    and "snd (verifyQuotesExamined ext att opts k qs lastErr ex) = ex @ qs"
proof -
  obtain e where e: "softError ext att opts k (last qs) = Some e"
    using assms by (meson last_in_set not_Some_eq)
  show "verifyQuotes ext att opts k qs lastErr = (None, softError ext att opts k (last qs))"
    using verifyQuotes_soft_prefix(1) [OF assms(2), where rest = "[]" and lastErr = lastErr] assms(1) e by simp
  show "snd (verifyQuotesExamined ext att opts k qs lastErr ex) = ex @ qs"
    using verifyQuotes_soft_prefix(2) [OF assms(2), where rest = "[]" and lastErr = lastErr and ex = ex] assms(1) e by simp
qed

lemma verifyQuotes_result:
  "(\<exists>e. verifyQuotes ext att opts k qs lastErr = (None, Some e)) \<or>
   (\<exists>q \<in> set qs. verifyQuotes ext att opts k qs lastErr = (replayedState ext att q, None) \<and>
      softError ext att opts k q = None)"
proof (induction qs arbitrary: lastErr)
  case Nil
  show ?case by (cases lastErr) simp_all
next
  case (Cons q qs)
  show ?case
  proof (cases "softError ext att opts k q")
    case None
    show ?thesis
      using verifyQuotes_pass(1) [OF None, where qs = qs and lastErr = lastErr] None
      by (cases "checkHashAlgSupported (quoteAlg q) opts") (simp_all del: verifyQuotes.simps)
  next
    case (Some e)
    show ?thesis
      using verifyQuotes_soft(1) [OF Some, where qs = qs and lastErr = lastErr]
        Cons.IH [of "Some e"]
      by (auto simp del: verifyQuotes.simps)
  qed
qed

lemma VerifyAttestation_result:
  "(\<exists>e. VerifyAttestation ext att opts = (None, Some e)) \<or>
   (\<exists>k q. akAccepted ext att opts k \<and> q \<in> set (supportedQuotes (GetQuotes att)) \<and>
      VerifyAttestation ext att opts = (replayedState ext att q, None) \<and>
      softError ext att opts k q = None)"
proof (cases "\<exists>k. akAccepted ext att opts k")
  case True
  then obtain k where k: "akAccepted ext att opts k" by blast
  show ?thesis
    using verifyQuotes_result [of ext att opts k "supportedQuotes (GetQuotes att)" None]
      akAccepted_loop(1) [OF k] k
    by auto
next
  case False
  then show ?thesis using VerifyAttestation_rejected [of ext att opts] by blast
qed

lemma softError_None_replay:
  "softError ext att opts k q = None \<Longrightarrow>
     snd (ParseAndReplayEventLog ext (GetEventLog att) (GetPcrs q)) = None"
  by (auto simp: softError_def split: option.splits prod.splits)

subsection \<open>The example inputs\<close>

lemma exTools_sel:
  "DecodePublic exTools b = (if b = [] then ([], Some (ExternalError 0)) else (b, None))"
  "Key exTools p = (exAk, None)"
  "GetSigningHashAlg exTools p = (if p = [1] then AlgSHA1 else AlgSHA256, None)"
  "VerifyQuote exTools q k n = (if quoteAlg q = AlgSHA512 then Some (ExternalError 1) else None)"
  "ParseAndReplayEventLog exTools log (GetPcrs q) =
     (if quoteAlg q = AlgSHA384 then (None, Some (ExternalError 2))
      else (Some (GetHash (GetPcrs q)), None))"
  by (simp_all add: exTools_def quoteAlg_def)

lemma exQuote_hash:
  "GetHash (GetPcrs exQuoteSHA1) = 4" "GetHash (GetPcrs exQuoteSHA256) = 11"
  by (simp_all add: GetHash_def GetPcrs_def exQuoteSHA1_def exQuoteSHA256_def)

lemma ex_pubKeys:
  "pubKeysEqual exAk exAk" "\<not> pubKeysEqual exAk exOtherAk"
  "pubKeysEqual exAk exNegatedAk" "\<not> pubKeysEqual exAk exAkOtherExponent"
  by (simp_all add: pubKeysEqual_def rsaEqual_def bigIntEqual_def exAk_def exOtherAk_def
      exNegatedAk_def exAkOtherExponent_def)

lemma ex_softError:
  "softError exTools att opts k exQuoteSHA512 =
     Some (ErrorfW ''failed to verify quote: %w'' (ExternalError 1))"
  "softError exTools att opts k exQuoteSHA384 =
     Some (ErrorfW ''failed to validate the event log: %w'' (ExternalError 2))"
  "softError exTools att opts k exQuoteSHA256 = None"
  "softError exTools att opts k exQuoteSHA1 = None"
  using algs_distinct
  by (simp_all add: softError_def exTools_sel exQuote_alg)

lemma ex_replayedState:
  "replayedState exTools att exQuoteSHA256 = Some 11"
  using algs_distinct
  by (simp add: replayedState_def exTools_sel exQuote_alg exQuote_hash)

lemma ex_supported:
  "checkHashAlgSupported AlgSHA256 opts = None"
  "checkHashAlgSupported AlgSHA1 opts = Some (ErrorfV ''unsupported hash algorithm: %v'' AlgSHA1)"
  using algs_distinct
  by (simp_all add: checkHashAlgSupported_def supportedHashAlgs_def)

lemma ex_trusted:
  "checkAkTrusted exAk (exOpts [exOtherAk, exAk]) = None"
  "checkAkTrusted exAk (exOpts [exAk]) = None"
  "checkAkTrusted exAk (exOpts [exOtherAk]) = Some (Errorf ''AK public key is not trusted'')"
  "checkAkTrusted exAk (exOpts []) = Some (Errorf ''no mechanism for AK verification provided'')"
  by (simp_all add: checkAkTrusted_def exOpts_def ex_pubKeys)

lemma ex_getters:
  "GetAkPub (exAttestation ak quotes) = ak"
  "GetQuotes (exAttestation ak quotes) = quotes"
  "GetEventLog (exAttestation ak quotes) = []"
  by (simp_all add: exAttestation_def GetAkPub_def GetQuotes_def GetEventLog_def)

lemma ex_accepted:
  "akAccepted exTools (exAttestation [2] quotes) (exOpts [exOtherAk, exAk]) exAk"
  by (simp add: akAccepted_def exTools_sel ex_getters ex_trusted ex_supported)

lemma ex_candidates:
  "supportedQuotes [exQuoteSHA256, exQuoteSHA384, exQuoteSHA512] =
     [exQuoteSHA512, exQuoteSHA384, exQuoteSHA256]"
  "supportedQuotes [exQuoteSHA384, exQuoteSHA512] = [exQuoteSHA512, exQuoteSHA384]"
  "supportedQuotes [exQuoteSHA1, None] = []"
  "supportedQuotes [exQuoteSHA1, exQuoteSHA256] = [exQuoteSHA256]"
  using algs_distinct
  by (simp_all add: supportedQuotes_def supportedHashAlgs_def exQuote_alg
      AlgSHA256_def AlgSHA384_def AlgSHA512_def AlgSHA1_def)

lemma ex_opts_sel: "TrustedAKs (exOpts trusted) = trusted" "Nonce (exOpts trusted) = []"
  by (simp_all add: exOpts_def)

lemma ex_loop:
  "VerifyAttestation exTools (exAttestation [2] quotes) (exOpts [exOtherAk, exAk]) =
     verifyQuotes exTools (exAttestation [2] quotes) (exOpts [exOtherAk, exAk]) exAk
       (supportedQuotes quotes) None"
  "examinedQuotes exTools (exAttestation [2] quotes) (exOpts [exOtherAk, exAk]) =
     snd (verifyQuotesExamined exTools (exAttestation [2] quotes) (exOpts [exOtherAk, exAk]) exAk
       (supportedQuotes quotes) None [])"
  using akAccepted_loop [OF ex_accepted [of quotes]]
  by (simp_all add: ex_getters examinedQuotes_def)

lemma ex_results:
  "VerifyAttestation exTools (exAttestation [2] [exQuoteSHA1, exQuoteSHA256])
     (exOpts [exOtherAk, exAk]) = (Some 11, None)"
  "examinedQuotes exTools (exAttestation [2] [exQuoteSHA1, exQuoteSHA256])
     (exOpts [exOtherAk, exAk]) = [exQuoteSHA256]"
  "VerifyAttestation exTools (exAttestation [2] [exQuoteSHA384, exQuoteSHA512])
     (exOpts [exOtherAk, exAk]) =
       (None, Some (ErrorfW ''failed to validate the event log: %w'' (ExternalError 2)))"
  by (simp_all add: ex_loop ex_candidates verifyQuotes_pass verifyQuotes_soft ex_softError
      ex_replayedState ex_supported exQuote_alg
      del: verifyQuotes.simps(2) verifyQuotesExamined.simps(2))

lemma ex_rejected:
  "VerifyAttestation exTools (exAttestation [1] [exQuoteSHA256]) (exOpts [exOtherAk]) =
     (None, Some (Errorf ''AK public key is not trusted''))"
  "VerifyAttestation exTools (exAttestation [] [exQuoteSHA256]) (exOpts []) =
     (None, Some (ErrorfW ''failed to decode AK public area: %w'' (ExternalError 0)))"
  by (simp_all add: VerifyAttestation_def exTools_sel ex_getters ex_trusted)

lemma ex_negated_accepted:
  "akAccepted exTools (exAttestation [2] quotes) (exOpts [exNegatedAk]) exAk"
  by (simp add: akAccepted_def exTools_sel ex_getters checkAkTrusted_def ex_opts_sel
      ex_pubKeys ex_supported)

lemma exTools_replay_contract:
  "\<forall>log pcrs. snd (ParseAndReplayEventLog exTools log pcrs) = None \<longrightarrow>
     fst (ParseAndReplayEventLog exTools log pcrs) \<noteq> None"
  by (simp add: exTools_def)

subsection \<open>VerifyAttestation\<close>

text \<open>
  C2. Once the checks on the AK have passed: a candidate that fails the quote verifier
  or the log replay leaves its error in \<^verbatim>\<open>lastErr\<close> and the loop goes on with the
  next candidate; when every candidate fails so, the result is a nil state with the
  error of the last candidate alone, and every candidate was examined; when the
  candidates before one fail so and that one passes both, the result is its replayed
  state with a nil error, and no later candidate is examined.
\<close>

theorem soft_failures_continue:
  assumes "akAccepted ext att opts k"
  shows "(softError ext att opts k q \<noteq> None \<longrightarrow>
            verifyQuotes ext att opts k (q # rest) lastErr =
              verifyQuotes ext att opts k rest (softError ext att opts k q))
    \<and> (supportedQuotes (GetQuotes att) \<noteq> [] \<and>
        (\<forall>c \<in> set (supportedQuotes (GetQuotes att)). softError ext att opts k c \<noteq> None) \<longrightarrow>
          VerifyAttestation ext att opts =
            (None, softError ext att opts k (last (supportedQuotes (GetQuotes att)))) \<and>
          examinedQuotes ext att opts = supportedQuotes (GetQuotes att))
    \<and> (supportedQuotes (GetQuotes att) = pre @ c # post \<and>
        (\<forall>c \<in> set pre. softError ext att opts k c \<noteq> None) \<and>
        softError ext att opts k c = None \<longrightarrow>
          VerifyAttestation ext att opts = (replayedState ext att c, None) \<and>
          examinedQuotes ext att opts = pre @ [c])"
proof -
  let ?cands = "supportedQuotes (GetQuotes att)"
  have a: "softError ext att opts k q \<noteq> None \<longrightarrow>
            verifyQuotes ext att opts k (q # rest) lastErr =
              verifyQuotes ext att opts k rest (softError ext att opts k q)"
    using verifyQuotes_soft(1) [where ext = ext and att = att and opts = opts and k = k and q = q] by auto
  have b: "VerifyAttestation ext att opts = (None, softError ext att opts k (last ?cands)) \<and>
          examinedQuotes ext att opts = ?cands"
    if "?cands \<noteq> []" "\<forall>c \<in> set ?cands. softError ext att opts k c \<noteq> None"
    using verifyQuotes_all_soft(1) [OF that, where lastErr = None]
      verifyQuotes_all_soft(2) [OF that, where lastErr = None and ex = "[]"] akAccepted_loop [OF assms]
    by (simp add: examinedQuotes_def)
  have c: "VerifyAttestation ext att opts = (replayedState ext att c, None) \<and>
          examinedQuotes ext att opts = pre @ [c]"
    if eq: "?cands = pre @ c # post" and pre: "\<forall>c \<in> set pre. softError ext att opts k c \<noteq> None"
      and pass: "softError ext att opts k c = None"
  proof -
    have "c \<in> set ?cands" using eq by simp
    then have alg: "checkHashAlgSupported (quoteAlg c) opts = None"
      by (rule candidates_supported)
    have "verifyQuotes ext att opts k (pre @ c # post) None = (replayedState ext att c, None)"
      using verifyQuotes_soft_prefix(1) [OF pre, where rest = "c # post" and lastErr = None]
        verifyQuotes_pass(1) [OF pass, where qs = post] alg
      by (simp del: verifyQuotes.simps)
    moreover have "snd (verifyQuotesExamined ext att opts k (pre @ c # post) None []) = pre @ [c]"
      using verifyQuotes_soft_prefix(2) [OF pre, where rest = "c # post" and lastErr = None and ex = "[]"]
        verifyQuotes_pass(2) [OF pass, where qs = post and ex = pre]
      by (simp del: verifyQuotesExamined.simps)
    ultimately show ?thesis
      using akAccepted_loop [OF assms] eq by (simp add: examinedQuotes_def)
  qed
  show ?thesis using a b c by blast
qed

theorem soft_failures_continue_witness:
  "akAccepted exTools (exAttestation [2] [exQuoteSHA256, exQuoteSHA384, exQuoteSHA512])
     (exOpts [exOtherAk, exAk]) exAk
   \<and> verifyQuotes exTools (exAttestation [2] [exQuoteSHA256, exQuoteSHA384, exQuoteSHA512])
       (exOpts [exOtherAk, exAk]) exAk [exQuoteSHA512] None =
         (None, Some (ErrorfW ''failed to verify quote: %w'' (ExternalError 1)))
   \<and> VerifyAttestation exTools (exAttestation [2] [exQuoteSHA256, exQuoteSHA384, exQuoteSHA512])
       (exOpts [exOtherAk, exAk]) = (Some 11, None)
   \<and> examinedQuotes exTools (exAttestation [2] [exQuoteSHA256, exQuoteSHA384, exQuoteSHA512])
       (exOpts [exOtherAk, exAk]) = [exQuoteSHA512, exQuoteSHA384, exQuoteSHA256]
   \<and> VerifyAttestation exTools (exAttestation [2] [exQuoteSHA384, exQuoteSHA512])
       (exOpts [exOtherAk, exAk]) =
         (None, Some (ErrorfW ''failed to validate the event log: %w'' (ExternalError 2)))
   \<and> examinedQuotes exTools (exAttestation [2] [exQuoteSHA384, exQuoteSHA512])
       (exOpts [exOtherAk, exAk]) = [exQuoteSHA512, exQuoteSHA384]"
  using
    soft_failures_continue
      [OF ex_accepted [of "[exQuoteSHA256, exQuoteSHA384, exQuoteSHA512]"],
        where q = exQuoteSHA512 and rest = "[]" and lastErr = None
        and pre = "[exQuoteSHA512, exQuoteSHA384]" and c = exQuoteSHA256 and post = "[]"]
    soft_failures_continue
      [OF ex_accepted [of "[exQuoteSHA384, exQuoteSHA512]"],
        where q = exQuoteSHA512 and rest = "[]" and lastErr = None
        and pre = "[]" and c = exQuoteSHA256 and post = "[]"]
    ex_accepted
  by (simp add: ex_getters ex_candidates ex_softError ex_replayedState)

text \<open>
  C7. \<^verbatim>\<open>VerifyAttestation\<close> returns the error "attestation does not contain a
  supported quote" exactly when the checks on the AK pass and the selector returns no
  candidate. When the checks pass, there is a candidate and every candidate fails the
  verifier or the replay, the error of the last candidate is returned, which is another
  error.
\<close>

theorem no_quote_error_iff:
  "(VerifyAttestation ext att opts =
      (None, Some (Errorf ''attestation does not contain a supported quote'')) \<longleftrightarrow>
    (\<exists>k. akAccepted ext att opts k) \<and> supportedQuotes (GetQuotes att) = [])
   \<and> (akAccepted ext att opts k \<and> supportedQuotes (GetQuotes att) \<noteq> [] \<and>
       (\<forall>c \<in> set (supportedQuotes (GetQuotes att)). softError ext att opts k c \<noteq> None) \<longrightarrow>
         VerifyAttestation ext att opts =
           (None, softError ext att opts k (last (supportedQuotes (GetQuotes att)))) \<and>
         softError ext att opts k (last (supportedQuotes (GetQuotes att))) \<noteq>
           Some (Errorf ''attestation does not contain a supported quote''))"
proof -
  let ?cands = "supportedQuotes (GetQuotes att)"
  let ?none = "Errorf ''attestation does not contain a supported quote''"
  have fwd: "(\<exists>k. akAccepted ext att opts k) \<and> ?cands = []"
    if r: "VerifyAttestation ext att opts = (None, Some ?none)"
  proof -
    have acc: "\<exists>k. akAccepted ext att opts k"
      using VerifyAttestation_rejected [of ext att opts] r by auto
    then obtain k where k: "akAccepted ext att opts k" by blast
    have "?cands = []"
    proof (rule ccontr)
      assume "?cands \<noteq> []"
      then have "snd (verifyQuotes ext att opts k ?cands None) \<noteq> Some ?none"
        by (intro verifyQuotes_no_quote_error) simp_all
      then show False using r akAccepted_loop(1) [OF k] by simp
    qed
    with acc show ?thesis by blast
  qed
  have bwd: "VerifyAttestation ext att opts = (None, Some ?none)"
    if "\<exists>k. akAccepted ext att opts k" "?cands = []"
    using that akAccepted_loop(1) by fastforce
  have soft: "VerifyAttestation ext att opts = (None, softError ext att opts k (last ?cands)) \<and>
         softError ext att opts k (last ?cands) \<noteq> Some ?none"
    if k: "akAccepted ext att opts k" and ne: "?cands \<noteq> []"
      and all: "\<forall>c \<in> set ?cands. softError ext att opts k c \<noteq> None"
  proof -
    have "VerifyAttestation ext att opts = (None, softError ext att opts k (last ?cands))"
      using verifyQuotes_all_soft(1) [OF ne all, where lastErr = None] akAccepted_loop(1) [OF k] by simp
    moreover have "softError ext att opts k (last ?cands) \<noteq> Some ?none"
      by (auto simp: softError_def split: option.splits prod.splits)
    ultimately show ?thesis by blast
  qed
  show ?thesis using fwd bwd soft by blast
qed

theorem no_quote_error_iff_witness:
  "akAccepted exTools (exAttestation [2] [exQuoteSHA1, None]) (exOpts [exOtherAk, exAk]) exAk
   \<and> supportedQuotes (GetQuotes (exAttestation [2] [exQuoteSHA1, None])) = []
   \<and> VerifyAttestation exTools (exAttestation [2] [exQuoteSHA1, None]) (exOpts [exOtherAk, exAk]) =
       (None, Some (Errorf ''attestation does not contain a supported quote''))
   \<and> supportedQuotes (GetQuotes (exAttestation [2] [exQuoteSHA384, exQuoteSHA512])) =
       [exQuoteSHA512, exQuoteSHA384]
   \<and> VerifyAttestation exTools (exAttestation [2] [exQuoteSHA384, exQuoteSHA512])
       (exOpts [exOtherAk, exAk]) =
         (None, Some (ErrorfW ''failed to validate the event log: %w'' (ExternalError 2)))"
proof -
  have a: "\<exists>k. akAccepted exTools (exAttestation [2] [exQuoteSHA1, None])
      (exOpts [exOtherAk, exAk]) k"
    using ex_accepted by blast
  show ?thesis
    using
      no_quote_error_iff [of exTools "exAttestation [2] [exQuoteSHA1, None]"
        "exOpts [exOtherAk, exAk]" exAk]
      no_quote_error_iff [of exTools "exAttestation [2] [exQuoteSHA384, exQuoteSHA512]"
        "exOpts [exOtherAk, exAk]" exAk]
      a ex_accepted
    by (simp add: ex_getters ex_candidates ex_softError)
qed

text \<open>
  C8. If the log replay returns a state whenever it returns a nil error, then
  \<^verbatim>\<open>VerifyAttestation\<close> returns either a state with a nil error or a nil state
  with an error. Whatever the replay does, a returned error comes with a nil state.
\<close>

theorem VerifyAttestation_state_or_error:
  "((\<forall>log pcrs. snd (ParseAndReplayEventLog ext log pcrs) = None \<longrightarrow>
        fst (ParseAndReplayEventLog ext log pcrs) \<noteq> None) \<longrightarrow>
      (\<exists>s. VerifyAttestation ext att opts = (Some s, None)) \<or>
      (\<exists>e. VerifyAttestation ext att opts = (None, Some e)))
   \<and> (snd (VerifyAttestation ext att opts) \<noteq> None \<longrightarrow>
        fst (VerifyAttestation ext att opts) = None)"
proof -
  have a: "(\<exists>s. VerifyAttestation ext att opts = (Some s, None)) \<or>
      (\<exists>e. VerifyAttestation ext att opts = (None, Some e))"
    if c: "\<forall>log pcrs. snd (ParseAndReplayEventLog ext log pcrs) = None \<longrightarrow>
        fst (ParseAndReplayEventLog ext log pcrs) \<noteq> None"
  proof -
    from VerifyAttestation_result [of ext att opts] show ?thesis
    proof
      assume "\<exists>e. VerifyAttestation ext att opts = (None, Some e)"
      then show ?thesis by blast
    next
      assume "\<exists>k q. akAccepted ext att opts k \<and> q \<in> set (supportedQuotes (GetQuotes att)) \<and>
        VerifyAttestation ext att opts = (replayedState ext att q, None) \<and>
        softError ext att opts k q = None"
      then obtain k q where r: "VerifyAttestation ext att opts = (replayedState ext att q, None)"
        and s: "softError ext att opts k q = None" by blast
      have "replayedState ext att q \<noteq> None"
        using c softError_None_replay [OF s] by (simp add: replayedState_def)
      with r show ?thesis by auto
    qed
  qed
  have b: "snd (VerifyAttestation ext att opts) \<noteq> None \<longrightarrow>
        fst (VerifyAttestation ext att opts) = None"
    using VerifyAttestation_result [of ext att opts] by auto
  show ?thesis using a b by blast
qed

theorem VerifyAttestation_state_or_error_witness:
  "((\<exists>s. VerifyAttestation exTools (exAttestation [2] [exQuoteSHA1, exQuoteSHA256])
       (exOpts [exOtherAk, exAk]) = (Some s, None)) \<or>
    (\<exists>e. VerifyAttestation exTools (exAttestation [2] [exQuoteSHA1, exQuoteSHA256])
       (exOpts [exOtherAk, exAk]) = (None, Some e)))
   \<and> VerifyAttestation exTools (exAttestation [2] [exQuoteSHA1, exQuoteSHA256])
       (exOpts [exOtherAk, exAk]) = (Some 11, None)
   \<and> snd (VerifyAttestation exTools (exAttestation [2] [exQuoteSHA384, exQuoteSHA512])
       (exOpts [exOtherAk, exAk])) \<noteq> None
   \<and> fst (VerifyAttestation exTools (exAttestation [2] [exQuoteSHA384, exQuoteSHA512])
       (exOpts [exOtherAk, exAk])) = None"
  using
    VerifyAttestation_state_or_error [of exTools "exAttestation [2] [exQuoteSHA1, exQuoteSHA256]"
      "exOpts [exOtherAk, exAk]"]
    VerifyAttestation_state_or_error [of exTools "exAttestation [2] [exQuoteSHA384, exQuoteSHA512]"
      "exOpts [exOtherAk, exAk]"]
    exTools_replay_contract ex_results(1,3)
  by simp

text \<open>
  C4, as amended. Two keys match when both are RSA keys with moduli of the same
  absolute value and the same exponent, or both are ECDSA keys on the same curve with
  coordinates of the same absolute values. When the AK public area decodes to a key
  that matches no trusted key, \<^verbatim>\<open>VerifyAttestation\<close> returns a nil state with the
  error of \<^verbatim>\<open>checkAkTrusted\<close>, whatever the quotes, the verifier and the replay are,
  and no quote is examined. When no component of the AK and of the trusted keys is
  negative, this is so for every AK that is none of the trusted keys.
\<close>

theorem untrusted_ak_rejected:
  assumes "DecodePublic ext (GetAkPub att) = (akPubArea, None)"
    and "Key ext akPubArea = (akPubKey, None)"
  shows "((\<forall>t \<in> set (TrustedAKs opts).
             \<not> (is_RSAPublicKey akPubKey \<and> is_RSAPublicKey t \<and>
                \<bar>N akPubKey\<bar> = \<bar>N t\<bar> \<and> E akPubKey = E t) \<and>
             \<not> (is_ECDSAPublicKey akPubKey \<and> is_ECDSAPublicKey t \<and> Curve akPubKey = Curve t \<and>
                \<bar>X akPubKey\<bar> = \<bar>X t\<bar> \<and> \<bar>Y akPubKey\<bar> = \<bar>Y t\<bar>)) \<longrightarrow>
           VerifyAttestation ext att opts =
             (None, Some (if TrustedAKs opts = []
                then Errorf ''no mechanism for AK verification provided''
                else Errorf ''AK public key is not trusted''))
           \<and> examinedQuotes ext att opts = [])
       \<and> (nonNegativeKey akPubKey \<and> (\<forall>t \<in> set (TrustedAKs opts). nonNegativeKey t) \<and>
           akPubKey \<notin> set (TrustedAKs opts) \<longrightarrow>
           VerifyAttestation ext att opts =
             (None, Some (if TrustedAKs opts = []
                then Errorf ''no mechanism for AK verification provided''
                else Errorf ''AK public key is not trusted''))
           \<and> examinedQuotes ext att opts = [])"
proof -
  have r: "VerifyAttestation ext att opts =
             (None, Some (if TrustedAKs opts = []
                then Errorf ''no mechanism for AK verification provided''
                else Errorf ''AK public key is not trusted''))
           \<and> examinedQuotes ext att opts = []"
    if no: "\<forall>t \<in> set (TrustedAKs opts). \<not> pubKeysEqual akPubKey t"
  proof -
    have "checkAkTrusted akPubKey opts \<noteq> None"
      using no by (simp add: checkAkTrusted_None)
    then obtain err where err: "checkAkTrusted akPubKey opts = Some err" by blast
    have "err = (if TrustedAKs opts = []
                then Errorf ''no mechanism for AK verification provided''
                else Errorf ''AK public key is not trusted'')"
      using err by (auto simp: checkAkTrusted_def split: if_splits dest: checkAkLoop_error)
    then show ?thesis
      using assms err
      by (simp add: VerifyAttestation_def examinedQuotes_def VerifyAttestationExamined_def)
  qed
  have a: "\<forall>t \<in> set (TrustedAKs opts). \<not> pubKeysEqual akPubKey t"
    if "\<forall>t \<in> set (TrustedAKs opts).
             \<not> (is_RSAPublicKey akPubKey \<and> is_RSAPublicKey t \<and>
                \<bar>N akPubKey\<bar> = \<bar>N t\<bar> \<and> E akPubKey = E t) \<and>
             \<not> (is_ECDSAPublicKey akPubKey \<and> is_ECDSAPublicKey t \<and> Curve akPubKey = Curve t \<and>
                \<bar>X akPubKey\<bar> = \<bar>X t\<bar> \<and> \<bar>Y akPubKey\<bar> = \<bar>Y t\<bar>)"
    using that by (simp add: pubKeysEqual_iff)
  have b: "\<forall>t \<in> set (TrustedAKs opts). \<not> pubKeysEqual akPubKey t"
    if "nonNegativeKey akPubKey" "\<forall>t \<in> set (TrustedAKs opts). nonNegativeKey t"
      "akPubKey \<notin> set (TrustedAKs opts)"
    using that pubKeysEqual_nonNegative by blast
  show ?thesis using r a b by blast
qed

theorem untrusted_ak_rejected_witness:
  "VerifyAttestation exTools (exAttestation [2] [exQuoteSHA256])
     (exOpts [exOtherAk, exAkOtherExponent]) =
       (None, Some (Errorf ''AK public key is not trusted''))
   \<and> examinedQuotes exTools (exAttestation [2] [exQuoteSHA256])
       (exOpts [exOtherAk, exAkOtherExponent]) = []
   \<and> VerifyAttestation exTools (exAttestation [2] [exQuoteSHA256]) (exOpts []) =
     (None, Some (Errorf ''no mechanism for AK verification provided''))"
proof -
  have d: "DecodePublic exTools (GetAkPub (exAttestation [2] [exQuoteSHA256])) = ([2], None)"
    and k: "Key exTools [2] = (exAk, None)"
    by (simp_all add: exTools_sel ex_getters)
  have n: "nonNegativeKey exAk" "nonNegativeKey exOtherAk" "nonNegativeKey exAkOtherExponent"
    and m: "exAk \<noteq> exOtherAk" "exAk \<noteq> exAkOtherExponent"
    by (simp_all add: nonNegativeKey_def exAk_def exOtherAk_def exAkOtherExponent_def)
  show ?thesis
    using
      untrusted_ak_rejected [OF d k, where opts = "exOpts [exOtherAk, exAkOtherExponent]"]
      untrusted_ak_rejected [OF d k, where opts = "exOpts []"]
      n m
    by (simp add: ex_opts_sel)
qed

text \<open>
  C4 as stated, for an AK that is equal to no trusted key, fails: the only trusted key
  is \<open>exAk\<close> with a negative modulus, which is not the AK that the public area
  decodes to, but \<^verbatim>\<open>Equal\<close> compares absolute values; the AK is trusted and the
  attestation verifies.
\<close>

theorem untrusted_ak_counterexample:
  "DecodePublic exTools (GetAkPub (exAttestation [2] [exQuoteSHA256])) = ([2], None)
   \<and> Key exTools [2] = (exAk, None)
   \<and> exAk \<notin> set (TrustedAKs (exOpts [exNegatedAk]))
   \<and> VerifyAttestation exTools (exAttestation [2] [exQuoteSHA256]) (exOpts [exNegatedAk]) =
       (Some 11, None)"
proof -
  have "supportedQuotes [exQuoteSHA256] = [exQuoteSHA256]"
    using algs_distinct
    by (simp add: supportedQuotes_def supportedHashAlgs_def exQuote_alg)
  then have "VerifyAttestation exTools (exAttestation [2] [exQuoteSHA256])
      (exOpts [exNegatedAk]) = (Some 11, None)"
    using akAccepted_loop(1) [OF ex_negated_accepted [of "[exQuoteSHA256]"]]
    by (simp add: ex_getters verifyQuotes_pass ex_softError ex_replayedState ex_supported
        exQuote_alg del: verifyQuotes.simps(2))
  then show ?thesis
    by (simp add: exTools_sel ex_getters ex_opts_sel exAk_def exNegatedAk_def)
qed

text \<open>
  C5, as amended. When the AK public area decodes to a key that is trusted and the
  signing hash algorithm derived from the area is none of SHA-512, SHA-384 and
  SHA-256, \<^verbatim>\<open>VerifyAttestation\<close> returns a nil state with the error "in AK public
  area: unsupported hash algorithm", and no quote is examined.
\<close>

theorem unsupported_signing_alg_rejected:
  assumes "DecodePublic ext (GetAkPub att) = (akPubArea, None)"
    and "Key ext akPubArea = (akPubKey, None)"
    and "checkAkTrusted akPubKey opts = None"
    and "GetSigningHashAlg ext akPubArea = (signHashAlg, None)"
    and "signHashAlg \<noteq> AlgSHA512" and "signHashAlg \<noteq> AlgSHA384" and "signHashAlg \<noteq> AlgSHA256"
  shows "VerifyAttestation ext att opts =
           (None, Some (ErrorfW ''in AK public area: %w''
              (ErrorfV ''unsupported hash algorithm: %v'' signHashAlg)))
         \<and> examinedQuotes ext att opts = []"
proof -
  have "checkHashAlgSupported signHashAlg opts =
      Some (ErrorfV ''unsupported hash algorithm: %v'' signHashAlg)"
    using assms(5-7) by (simp add: checkHashAlgSupported_def supportedHashAlgs_def)
  then show ?thesis
    using assms(1-4)
    by (simp add: VerifyAttestation_def examinedQuotes_def VerifyAttestationExamined_def)
qed

theorem unsupported_signing_alg_rejected_witness:
  "VerifyAttestation exTools (exAttestation [1] [exQuoteSHA256]) (exOpts [exAk]) =
     (None, Some (ErrorfW ''in AK public area: %w''
        (ErrorfV ''unsupported hash algorithm: %v'' AlgSHA1)))
   \<and> examinedQuotes exTools (exAttestation [1] [exQuoteSHA256]) (exOpts [exAk]) = []"
  using
    unsupported_signing_alg_rejected [where ext = exTools
      and att = "exAttestation [1] [exQuoteSHA256]" and akPubArea = "[1]" and akPubKey = exAk
      and opts = "exOpts [exAk]" and signHashAlg = AlgSHA1]
    algs_distinct
  by (simp add: exTools_sel ex_getters ex_trusted)

text \<open>
  C5 as stated, without the condition that the AK is trusted, fails: the area \<open>[1]\<close>
  signs with SHA-1, but its key is not among the trusted keys, and the error is that of
  the trust check, which comes first.
\<close>

theorem unsupported_signing_alg_counterexample:
  "GetSigningHashAlg exTools (fst (DecodePublic exTools (GetAkPub (exAttestation [1] [exQuoteSHA256]))))
     = (AlgSHA1, None)
   \<and> checkHashAlgSupported AlgSHA1 (exOpts [exOtherAk]) \<noteq> None
   \<and> VerifyAttestation exTools (exAttestation [1] [exQuoteSHA256]) (exOpts [exOtherAk]) =
       (None, Some (Errorf ''AK public key is not trusted''))"
  by (simp add: ex_rejected exTools_sel ex_getters ex_supported)

text \<open>
  C6, as amended. With no trusted key, \<^verbatim>\<open>VerifyAttestation\<close> returns a nil state
  and an error for every input, and examines no quote. The error is "no mechanism for
  AK verification provided" when the AK public area decodes and yields a key; it is
  the error of the decoding, or of the key extraction, when that step fails.
\<close>

theorem empty_trust_never_accepts:
  assumes "TrustedAKs opts = []"
  shows "(\<exists>e. VerifyAttestation ext att opts = (None, Some e))
         \<and> examinedQuotes ext att opts = []
         \<and> (snd (DecodePublic ext (GetAkPub att)) = None \<and>
            snd (Key ext (fst (DecodePublic ext (GetAkPub att)))) = None \<longrightarrow>
              VerifyAttestation ext att opts =
                (None, Some (Errorf ''no mechanism for AK verification provided'')))
         \<and> (snd (DecodePublic ext (GetAkPub att)) = Some err \<longrightarrow>
              VerifyAttestation ext att opts =
                (None, Some (ErrorfW ''failed to decode AK public area: %w'' err)))
         \<and> (snd (DecodePublic ext (GetAkPub att)) = None \<and>
            snd (Key ext (fst (DecodePublic ext (GetAkPub att)))) = Some err \<longrightarrow>
              VerifyAttestation ext att opts =
                (None, Some (ErrorfW ''failed to get AK public key: %w'' err)))"
proof -
  have t: "\<And>k. checkAkTrusted k opts = Some (Errorf ''no mechanism for AK verification provided'')"
    using assms by (simp add: checkAkTrusted_def)
  show ?thesis
    by (cases "DecodePublic ext (GetAkPub att)";
        cases "Key ext (fst (DecodePublic ext (GetAkPub att)))")
      (auto simp: VerifyAttestation_def examinedQuotes_def VerifyAttestationExamined_def t
        split: option.splits)
qed

theorem empty_trust_never_accepts_witness:
  "VerifyAttestation exTools (exAttestation [2] [exQuoteSHA256]) (exOpts []) =
     (None, Some (Errorf ''no mechanism for AK verification provided''))
   \<and> examinedQuotes exTools (exAttestation [2] [exQuoteSHA256]) (exOpts []) = []
   \<and> VerifyAttestation exTools (exAttestation [] [exQuoteSHA256]) (exOpts []) =
       (None, Some (ErrorfW ''failed to decode AK public area: %w'' (ExternalError 0)))"
  using
    empty_trust_never_accepts [where opts = "exOpts []" and ext = exTools
      and att = "exAttestation [2] [exQuoteSHA256]" and err = "ExternalError 0"]
    empty_trust_never_accepts [where opts = "exOpts []" and ext = exTools
      and att = "exAttestation [] [exQuoteSHA256]" and err = "ExternalError 0"]
  by (simp add: exTools_sel ex_getters ex_opts_sel)

text \<open>
  C6 as stated, for every input, fails: with no trusted key and an AK public area that
  does not decode, the error is that of the decoding, which comes first.
\<close>

theorem empty_trust_counterexample:
  "TrustedAKs (exOpts []) = []
   \<and> VerifyAttestation exTools (exAttestation [] [exQuoteSHA256]) (exOpts []) =
       (None, Some (ErrorfW ''failed to decode AK public area: %w'' (ExternalError 0)))
   \<and> ErrorfW ''failed to decode AK public area: %w'' (ExternalError 0) \<noteq>
       Errorf ''no mechanism for AK verification provided''
   \<and> ErrorfW ''failed to decode AK public area: %w'' (ExternalError 0) \<noteq>
       Errorf ''AK public key is not trusted''"
  by (simp add: ex_rejected ex_opts_sel)

text \<open>
  C1, as amended. Every candidate that the selector returns has a PCR bank algorithm
  of the policy list, and only candidates are examined, a prefix of them in their
  order; so \<^verbatim>\<open>VerifyAttestation\<close> never returns the error "when verifying PCRs".
  The loop itself, on a quote that passes the verifier and the replay and whose
  algorithm is not in the policy list, returns that error at once and examines no
  quote after it.
\<close>

theorem pcr_alg_check_never_fails:
  "(\<forall>q \<in> set (supportedQuotes (GetQuotes att)). checkHashAlgSupported (quoteAlg q) opts = None)
   \<and> (\<exists>n. examinedQuotes ext att opts = take n (supportedQuotes (GetQuotes att)))
   \<and> snd (VerifyAttestation ext att opts) \<noteq> Some (ErrorfW ''when verifying PCRs: %w'' e)
   \<and> (softError ext att opts k q = None \<and> checkHashAlgSupported (quoteAlg q) opts = Some err \<longrightarrow>
        verifyQuotes ext att opts k (q # rest) lastErr =
          (None, Some (ErrorfW ''when verifying PCRs: %w'' err)) \<and>
        snd (verifyQuotesExamined ext att opts k (q # rest) lastErr examined) = examined @ [q])"
proof -
  let ?cands = "supportedQuotes (GetQuotes att)"
  have a: "\<forall>q \<in> set ?cands. checkHashAlgSupported (quoteAlg q) opts = None"
    using candidates_supported by blast
  have c: "snd (VerifyAttestation ext att opts) \<noteq> Some (ErrorfW ''when verifying PCRs: %w'' e)"
  proof (cases "\<exists>k. akAccepted ext att opts k")
    case True
    then obtain k where k: "akAccepted ext att opts k" by blast
    show ?thesis
      using verifyQuotes_no_pcr_error [OF a, where lastErr = None and e = e and ext = ext and att = att and k = k]
        akAccepted_loop(1) [OF k]
      by simp
  next
    case False
    then show ?thesis using VerifyAttestation_rejected [of ext att opts] by auto
  qed
  have d: "verifyQuotes ext att opts k (q # rest) lastErr =
          (None, Some (ErrorfW ''when verifying PCRs: %w'' err)) \<and>
        snd (verifyQuotesExamined ext att opts k (q # rest) lastErr examined) = examined @ [q]"
    if p: "softError ext att opts k q = None"
      and u: "checkHashAlgSupported (quoteAlg q) opts = Some err"
    using verifyQuotes_pass(1) [OF p, where qs = rest and lastErr = lastErr]
      verifyQuotes_pass(2) [OF p, where qs = rest and lastErr = lastErr and ex = examined] u
    by (simp del: verifyQuotes.simps verifyQuotesExamined.simps)
  show ?thesis using a c d examinedQuotes_candidates [of ext att opts] by blast
qed

theorem pcr_alg_check_never_fails_witness:
  "checkHashAlgSupported (quoteAlg exQuoteSHA256) (exOpts [exOtherAk, exAk]) = None
   \<and> examinedQuotes exTools (exAttestation [2] [exQuoteSHA1, exQuoteSHA256])
       (exOpts [exOtherAk, exAk]) = [exQuoteSHA256]
   \<and> snd (VerifyAttestation exTools (exAttestation [2] [exQuoteSHA1, exQuoteSHA256])
       (exOpts [exOtherAk, exAk])) \<noteq>
         Some (ErrorfW ''when verifying PCRs: %w''
           (ErrorfV ''unsupported hash algorithm: %v'' AlgSHA1))
   \<and> verifyQuotes exTools (exAttestation [2] [exQuoteSHA1, exQuoteSHA256])
       (exOpts [exOtherAk, exAk]) exAk [exQuoteSHA1, exQuoteSHA256] None =
         (None, Some (ErrorfW ''when verifying PCRs: %w''
           (ErrorfV ''unsupported hash algorithm: %v'' AlgSHA1)))
   \<and> snd (verifyQuotesExamined exTools (exAttestation [2] [exQuoteSHA1, exQuoteSHA256])
       (exOpts [exOtherAk, exAk]) exAk [exQuoteSHA1, exQuoteSHA256] None []) = [exQuoteSHA1]"
  using
    pcr_alg_check_never_fails [where att = "exAttestation [2] [exQuoteSHA1, exQuoteSHA256]"
      and opts = "exOpts [exOtherAk, exAk]" and ext = exTools and k = exAk
      and e = "ErrorfV ''unsupported hash algorithm: %v'' AlgSHA1"
      and q = exQuoteSHA1 and err = "ErrorfV ''unsupported hash algorithm: %v'' AlgSHA1"
      and rest = "[exQuoteSHA256]" and lastErr = None and examined = "[]"]
    ex_results(2)
  by (simp add: ex_getters ex_candidates ex_softError ex_supported exQuote_alg
      del: verifyQuotes.simps verifyQuotesExamined.simps)

text \<open>
  C1 as stated fails: a quote over a SHA-1 bank that the verifier accepts and that the
  log replays against is never a candidate; the SHA-256 quote after it is examined and
  the attestation verifies.
\<close>

theorem pcr_alg_counterexample:
  "exQuoteSHA1 \<in> set (GetQuotes (exAttestation [2] [exQuoteSHA1, exQuoteSHA256]))
   \<and> VerifyQuote exTools exQuoteSHA1 exAk (Nonce (exOpts [exOtherAk, exAk])) = None
   \<and> snd (ParseAndReplayEventLog exTools
        (GetEventLog (exAttestation [2] [exQuoteSHA1, exQuoteSHA256])) (GetPcrs exQuoteSHA1)) = None
   \<and> checkHashAlgSupported (quoteAlg exQuoteSHA1) (exOpts [exOtherAk, exAk]) \<noteq> None
   \<and> VerifyAttestation exTools (exAttestation [2] [exQuoteSHA1, exQuoteSHA256])
       (exOpts [exOtherAk, exAk]) = (Some 11, None)
   \<and> examinedQuotes exTools (exAttestation [2] [exQuoteSHA1, exQuoteSHA256])
       (exOpts [exOtherAk, exAk]) = [exQuoteSHA256]"
  using algs_distinct
  by (simp add: ex_results(1,2) exTools_sel ex_getters ex_supported exQuote_alg ex_opts_sel)

end
